theory Spec2Isabelle
  imports Main "HOL-Library.Sublist"
begin

section \<open>Python strings and dictionaries\<close>

text \<open>
  A Python \<^verbatim>\<open>str\<close> is modelled as a \<^typ>\<open>string\<close>: a list of code points below 256.
  The operations below are the string methods that \<^verbatim>\<open>src/autogenlib/_generator.py\<close>
  calls, each with the behaviour CPython documents for it.
\<close>

text \<open>\<^verbatim>\<open>sub in s\<close>: \<^verbatim>\<open>sub\<close> occurs in \<^verbatim>\<open>s\<close> as a contiguous block.\<close>

fun str_in :: "string \<Rightarrow> string \<Rightarrow> bool" where
  "str_in sub [] = (sub = [])"
| "str_in sub (c # cs) = (prefix sub (c # cs) \<or> str_in sub cs)"

text \<open>\<^verbatim>\<open>s.startswith(p)\<close>.\<close>

definition startswith :: "string \<Rightarrow> string \<Rightarrow> bool" where
  "startswith s p = prefix p s"

text \<open>\<^verbatim>\<open>s.split(sep)\<close> for a one-character separator: never an empty list.\<close>

fun split :: "char \<Rightarrow> string \<Rightarrow> string list" where
  "split sep [] = [[]]"
| "split sep (c # cs) =
     (if c = sep then [] # split sep cs
      else (case split sep cs of [] \<Rightarrow> [[c]] | w # ws \<Rightarrow> (c # w) # ws))"

text \<open>\<^verbatim>\<open>sep.join(xs)\<close>.\<close>

fun join :: "string \<Rightarrow> string list \<Rightarrow> string" where
  "join sep [] = []"
| "join sep [x] = x"
| "join sep (x # y # ys) = x @ sep @ join sep (y # ys)"

text \<open>\<^verbatim>\<open>s.replace(old, new, 1)\<close>: only the leftmost occurrence is replaced.\<close>

fun replace_first :: "string \<Rightarrow> string \<Rightarrow> string \<Rightarrow> string" where
  "replace_first old new [] = (if old = [] then new else [])"
| "replace_first old new (c # cs) =
     (if prefix old (c # cs) then new @ drop (length old) (c # cs)
      else c # replace_first old new cs)"

text \<open>
  \<^verbatim>\<open>c.isspace()\<close> on the code points below 256: tab, line feed, vertical tab, form
  feed, carriage return, the separators 0x1C to 0x1F, space, NEL and the no-break space.
\<close>

definition isspace :: "char \<Rightarrow> bool" where
  "isspace c = (of_char c \<in> set [9, 10, 11, 12, 13, 28, 29, 30, 31, 32, 133, 160 :: nat])"

text \<open>\<^verbatim>\<open>s.strip()\<close>.\<close>

definition strip :: "string \<Rightarrow> string" where
  "strip s = rev (dropWhile isspace (rev (dropWhile isspace s)))"

text \<open>
  \<^verbatim>\<open>c.isupper()\<close> on the code points below 256: the letters A to Z and the Latin-1
  capitals 0xC0 to 0xDE without the multiplication sign 0xD7.
\<close>

definition isupper :: "char \<Rightarrow> bool" where
  "isupper c =
     (let n = (of_char c :: nat)
      in (65 \<le> n \<and> n \<le> 90) \<or> (192 \<le> n \<and> n \<le> 222 \<and> n \<noteq> 215))"

text \<open>
  A \<^verbatim>\<open>dict\<close> from strings to strings, in insertion order. \<^verbatim>\<open>d.get(k)\<close> is
  \<^term>\<open>map_of d k\<close>; a dictionary is truthy when it has an entry, a string when it has a
  character, and \<^verbatim>\<open>None\<close> never is.
\<close>

type_synonym pydict = "(string \<times> string) list"

definition truthy_str :: "string option \<Rightarrow> bool" where
  "truthy_str v = (case v of None \<Rightarrow> False | Some s \<Rightarrow> s \<noteq> [])"

definition truthy_dict :: "pydict option \<Rightarrow> bool" where
  "truthy_dict v = (case v of None \<Rightarrow> False | Some d \<Rightarrow> d \<noteq> [])"

text \<open>\<^verbatim>\<open>caller_info.get("code")\<close>, once \<^verbatim>\<open>caller_info\<close> is known to be truthy.\<close>

definition caller_get :: "pydict option \<Rightarrow> string \<Rightarrow> string option" where
  "caller_get caller_info k = (case caller_info of None \<Rightarrow> None | Some d \<Rightarrow> map_of d k)"

text \<open>\<^verbatim>\<open>d.get(k, default)\<close>.\<close>

definition get_default :: "string option \<Rightarrow> string \<Rightarrow> string" where
  "get_default v d = (case v of None \<Rightarrow> d | Some s \<Rightarrow> s)"

section \<open>The empty-module heuristic\<close>

text \<open>
  \<^verbatim>\<open>check_if_empty_module_needed(fullname, caller_info)\<close>, lines 38 to 77. The
  generator expression of lines 63 to 67 ranges over the lines that contain
  \<^verbatim>\<open>parts[1] + "."\<close> and \<^verbatim>\<open>"import"\<close>, and asks of each whether it contains
  \<^verbatim>\<open>parts[1] + "."\<close>.
\<close>

definition check_if_empty_module_needed :: "string \<Rightarrow> pydict option \<Rightarrow> bool" where
  "check_if_empty_module_needed fullname caller_info =
     (if \<not> truthy_dict caller_info then False
      else if \<not> truthy_str (caller_get caller_info ''code'') then False
      else
        let parts = split CHR ''.'' fullname in
        if length parts \<le> 2 then False
        else
          let code = get_default (caller_get caller_info ''code'') '''';
              module_name = join ''.'' (take 2 parts)
          in
          if str_in (parts ! 1 @ ''.'') code \<and>
             \<not> list_all (\<lambda>line. str_in (parts ! 1 @ ''.'') line)
                 (filter (\<lambda>line. str_in (parts ! 1 @ ''.'') line \<and> str_in ''import'' line)
                    (split CHR 0x0A code))
          then False
          else
            let parent_module = ''from '' @ parts ! 0 @ ''.'' @ parts ! 1;
                child_modules =
                  filter (\<lambda>line. str_in parent_module line \<and> str_in ''import'' line)
                    (split CHR 0x0A code)
            in length child_modules > 0)"

section \<open>The collaborators of the generator\<close>

text \<open>
  The module store (\<^verbatim>\<open>_cache.get_all_modules\<close> and \<^verbatim>\<open>_cache.get_cached_prompt\<close>) is
  imported by the generator and only read: what the two calls return is a parameter of
  the model. \<^verbatim>\<open>get_all_modules()\<close> is a dictionary from module names to dictionaries, in
  iteration order; \<^verbatim>\<open>get_cached_prompt(name)\<close> is a string or \<^verbatim>\<open>None\<close>.
\<close>

record module_store =
  get_all_modules :: "(string \<times> pydict) list"
  get_cached_prompt :: "string \<Rightarrow> string option"

text \<open>The exceptions the generator meets, each with its message.\<close>

datatype exn =
  SyntaxError string | ValueError string | RecursionError string | OtherError string

fun exn_str :: "exn \<Rightarrow> string" where
  "exn_str (SyntaxError m) = m"
| "exn_str (ValueError m) = m"
| "exn_str (RecursionError m) = m"
| "exn_str (OtherError m) = m"

text \<open>
  \<^verbatim>\<open>ast.parse\<close> is the interpreter's parser: it returns a tree, which the generator
  drops, or raises. The parser is a parameter of the model.
\<close>

datatype parse_result = Parsed | Raised exn

type_synonym parser = "string \<Rightarrow> parse_result"

text \<open>\<^verbatim>\<open>os.environ\<close>.\<close>

type_synonym environ = "string \<Rightarrow> string option"

text \<open>
  One call of the generation service: the client is built from the credential and the
  endpoint, and \<^verbatim>\<open>chat.completions.create\<close> is called with the model and the user
  prompt (the system message of lines 270 to 293 and the temperature are the same in
  every call and are left out of the record). The service is a parameter: it answers
  with the content of the first choice, or an exception is raised on the way.
\<close>

record request =
  req_api_key :: string
  req_base_url :: "string option"
  req_model :: string
  req_prompt :: string

type_synonym service = "request \<Rightarrow> exn + string"

text \<open>
  What a call of \<^verbatim>\<open>generate_code\<close> leaves behind: the value returned, the calls made
  to the generation service, in order, and the lines printed.
\<close>

record outcome =
  result :: "string option"
  requests :: "request list"
  printed :: "string list"

section \<open>The validator\<close>

text \<open>
  \<^verbatim>\<open>validate_code(code)\<close>, lines 12 to 19: only \<^verbatim>\<open>SyntaxError\<close> is caught, any other
  exception of the parser leaves the function.
\<close>

definition validate_code :: "parser \<Rightarrow> string \<Rightarrow> exn + bool" where
  "validate_code ast_parse code =
     (case ast_parse code of
        Parsed \<Rightarrow> Inr True
      | Raised (SyntaxError m) \<Rightarrow> Inr False
      | Raised e \<Rightarrow> Inl e)"

section \<open>The codebase context\<close>

text \<open>
  \<^verbatim>\<open>get_codebase_context()\<close>, lines 22 to 35. The loop appends one block for every
  module whose data has the key \<^verbatim>\<open>code\<close>.
\<close>

definition module_block :: "string \<Rightarrow> string \<Rightarrow> string" where
  "module_block module_name code =
     ''# Module: '' @ module_name @ ''\<newline>```python\<newline>'' @ code @ ''\<newline>```\<newline>\<newline>''"

fun add_modules :: "string \<Rightarrow> (string \<times> pydict) list \<Rightarrow> string" where
  "add_modules context [] = context"
| "add_modules context ((module_name, data) # rest) =
     (case map_of data ''code'' of
        None \<Rightarrow> add_modules context rest
      | Some code \<Rightarrow> add_modules (context @ module_block module_name code) rest)"

definition get_codebase_context :: "module_store \<Rightarrow> string" where
  "get_codebase_context store =
     (let modules = get_all_modules store in
      if modules = [] then ''''
      else add_modules ''Here is the existing codebase for reference:\<newline>\<newline>'' modules)"

section \<open>The prompt\<close>

text \<open>\<^verbatim>\<open>'{x}'\<close> inside an f-string: the value between two apostrophes.\<close>

definition quoted :: "string \<Rightarrow> string" where
  "quoted s = CHR 0x27 # s @ [CHR 0x27]"

text \<open>\<^verbatim>\<open>{x}\<close> inside an f-string, for a value that is a string or \<^verbatim>\<open>None\<close>.\<close>

definition fmt :: "string option \<Rightarrow> string" where
  "fmt v = (case v of None \<Rightarrow> ''None'' | Some s \<Rightarrow> s)"

text \<open>
  \<^verbatim>\<open>"function" if not function_name[0].isupper() else "class"\<close>, for a name with a
  first character.
\<close>

definition symbol_kind :: "string \<Rightarrow> string" where
  "symbol_kind function_name =
     (if \<not> isupper (hd function_name) then ''function'' else ''class'')"

text \<open>The caller context when relevant lines were found, lines 129 to 144.\<close>

definition caller_context_snippets :: "string \<Rightarrow> string list \<Rightarrow> string \<Rightarrow> string" where
  "caller_context_snippets filename relevant_parts code =
     ''\<newline>'' @
     ''            Here is the code that is importing and using this module/function:\<newline>'' @
     ''            ```python\<newline>'' @
     ''            # File: '' @ filename @ ''\<newline>'' @
     ''            # --- Relevant snippets ---\<newline>'' @
     ''            '' @ join ''\<newline>'' relevant_parts @ ''\<newline>'' @
     ''            ```\<newline>'' @
     ''            \<newline>'' @
     ''            And here is the full context:\<newline>'' @
     ''            ```python\<newline>'' @
     ''            '' @ code @ ''\<newline>'' @
     ''            ```\<newline>'' @
     ''            \<newline>'' @
     ''            Analyze how the requested functionality will be used in the code snippets above.\<newline>'' @
     ''            Pay special attention to parameter types, return values, and expected behavior.\<newline>'' @
     ''            ''"

text \<open>The caller context otherwise, lines 146 to 155.\<close>

definition caller_context_whole :: "string \<Rightarrow> string \<Rightarrow> string" where
  "caller_context_whole filename code =
     ''\<newline>'' @
     ''            Here is the code that is importing this module/function:\<newline>'' @
     ''            ```python\<newline>'' @
     ''            # File: '' @ filename @ ''\<newline>'' @
     ''            '' @ code @ ''\<newline>'' @
     ''            ```\<newline>'' @
     ''            \<newline>'' @
     ''            Analyze how the requested functionality will be used in this code.\<newline>'' @
     ''            Pay special attention to parameter types, return values, and expected behavior.\<newline>'' @
     ''            ''"

text \<open>The lines of the caller that the relevance filter keeps, lines 106 to 125.\<close>

definition relevant_parts_of :: "string \<Rightarrow> string \<Rightarrow> string list" where
  "relevant_parts_of fullname code =
     (let relevant_parts = [];
          module_parts = split CHR ''.'' fullname
      in
      if length module_parts \<ge> 2 then
        let module_prefix = ''from '' @ module_parts ! 0 @ ''.'' @ module_parts ! 1;
            import_lines = filter (\<lambda>line. str_in module_prefix line) (split CHR 0x0A code);
            relevant_parts =
              (if import_lines \<noteq> [] then relevant_parts @ import_lines else relevant_parts)
        in
        if length module_parts \<ge> 3 then
          let func_name = module_parts ! 2;
              func_usage_lines =
                filter
                  (\<lambda>line. str_in func_name line \<and>
                     \<not> (startswith line ''import '' \<or> startswith line ''from ''))
                  (split CHR 0x0A code)
          in
          if func_usage_lines \<noteq> [] then relevant_parts @ func_usage_lines else relevant_parts
        else relevant_parts
      else relevant_parts)"

text \<open>The caller context, lines 100 to 155.\<close>

definition caller_context_of :: "string \<Rightarrow> pydict option \<Rightarrow> string" where
  "caller_context_of fullname caller_info =
     (if truthy_dict caller_info \<and> truthy_str (caller_get caller_info ''code'') then
        let code = get_default (caller_get caller_info ''code'') '''';
            relevant_parts = relevant_parts_of fullname code;
            filename = get_default (caller_get caller_info ''filename'') ''unknown''
        in
        if relevant_parts \<noteq> [] then caller_context_snippets filename relevant_parts code
        else caller_context_whole filename code
      else '''')"

text \<open>The instruction added when the heuristic fired, lines 162 to 168.\<close>

definition empty_module_text :: "string \<Rightarrow> string" where
  "empty_module_text fullname =
     ''\<newline>'' @
     ''        IMPORTANT: Based on the calling code analysis, this module '' @ quoted fullname @ '' appears to be \<newline>'' @
     ''        primarily used for namespacing/structural purposes rather than for its own functionality.\<newline>'' @
     ''        \<newline>'' @
     ''        If appropriate, you may generate a minimal module with just necessary imports and docstrings,\<newline>'' @
     ''        but without substantial implementation if the code doesn't show direct usage of this module.\<newline>'' @
     ''        ''"

text \<open>The template that extends an existing module, lines 172 to 203.\<close>

definition extend_prompt ::
  "string \<Rightarrow> string \<Rightarrow> string \<Rightarrow> string \<Rightarrow> string \<Rightarrow> string \<Rightarrow> string \<Rightarrow> string \<Rightarrow> string"
where
  "extend_prompt module_name function_name description current_description existing_code
     codebase_context caller_context empty_module_context =
     ''\<newline>'' @
     ''        You are extending an existing Python module named '' @ quoted module_name @ ''.\<newline>'' @
     ''        \<newline>'' @
     ''        The overall purpose of this library is:\<newline>'' @
     ''        '' @ current_description @ ''\<newline>'' @
     ''        \<newline>'' @
     ''        Here is the existing code for this module:\<newline>'' @
     ''        ```python\<newline>'' @
     ''        '' @ existing_code @ ''\<newline>'' @
     ''        ```\<newline>'' @
     ''        \<newline>'' @
     ''        '' @ codebase_context @ ''\<newline>'' @
     ''        \<newline>'' @
     ''        '' @ caller_context @ ''\<newline>'' @
     ''        \<newline>'' @
     ''        '' @ empty_module_context @ ''\<newline>'' @
     ''        \<newline>'' @
     ''        I need you to add a new '' @ symbol_kind function_name @ '' named '' @ quoted function_name @ '' that implements the following functionality:\<newline>'' @
     ''        '' @ description @ ''\<newline>'' @
     ''        \<newline>'' @
     ''        IMPORTANT REQUIREMENTS:\<newline>'' @
     ''        1. Maintain consistency with the existing code style, naming patterns, and error handling\<newline>'' @
     ''        2. Keep all existing functions and classes intact\<newline>'' @
     ''        3. Add comprehensive docstrings with parameters, returns, and exceptions\<newline>'' @
     ''        4. Use type hints for better code clarity when appropriate\<newline>'' @
     ''        5. Analyze the caller code carefully to ensure the function works with existing data structures\<newline>'' @
     ''        6. If analysis suggests this is purely for structural imports with no actual functionality needed,\<newline>'' @
     ''           provide minimal implementation with appropriate comments\<newline>'' @
     ''        \<newline>'' @
     ''        Return the COMPLETE module code including both existing functionality and the new function.\<newline>'' @
     ''        Your response must be ONLY valid Python code without any explanations or markdown.\<newline>'' @
     ''        ''"

text \<open>The template for a new module with one symbol, lines 205 to 226.\<close>

definition module_prompt ::
  "string \<Rightarrow> string \<Rightarrow> string \<Rightarrow> string \<Rightarrow> string \<Rightarrow> string \<Rightarrow> string"
where
  "module_prompt module_name function_name description codebase_context caller_context
     empty_module_context =
     ''\<newline>'' @
     ''        Create a Python module named '' @ quoted module_name @ '' with a '' @ symbol_kind function_name @ '' named '' @ quoted function_name @ '' that implements the following functionality:\<newline>'' @
     ''        '' @ description @ ''\<newline>'' @
     ''        \<newline>'' @
     ''        '' @ codebase_context @ ''\<newline>'' @
     ''        \<newline>'' @
     ''        '' @ caller_context @ ''\<newline>'' @
     ''        \<newline>'' @
     ''        '' @ empty_module_context @ ''\<newline>'' @
     ''        \<newline>'' @
     ''        IMPORTANT REQUIREMENTS:\<newline>'' @
     ''        1. Start with a clear module docstring explaining the purpose\<newline>'' @
     ''        2. Include detailed docstrings with parameters, returns, and exceptions\<newline>'' @
     ''        3. Use type hints when appropriate for clarity\<newline>'' @
     ''        4. Implement robust error handling with specific exception types\<newline>'' @
     ''        5. Follow strict PEP 8 style guidelines\<newline>'' @
     ''        6. Analyze the caller context carefully to match the expected usage pattern\<newline>'' @
     ''        7. If analysis suggests this is purely for structural imports with no actual functionality needed,\<newline>'' @
     ''           provide minimal implementation with appropriate comments\<newline>'' @
     ''        \<newline>'' @
     ''        Your response must be ONLY valid Python code without any explanations or markdown.\<newline>'' @
     ''        ''"

text \<open>The template for a new package, lines 228 to 249.\<close>

definition package_prompt :: "string \<Rightarrow> string \<Rightarrow> string \<Rightarrow> string \<Rightarrow> string \<Rightarrow> string" where
  "package_prompt module_name description codebase_context caller_context
     empty_module_context =
     ''\<newline>'' @
     ''        Create a Python package named '' @ quoted module_name @ '' that implements the following functionality:\<newline>'' @
     ''        '' @ description @ ''\<newline>'' @
     ''        \<newline>'' @
     ''        '' @ codebase_context @ ''\<newline>'' @
     ''        \<newline>'' @
     ''        '' @ caller_context @ ''\<newline>'' @
     ''        \<newline>'' @
     ''        '' @ empty_module_context @ ''\<newline>'' @
     ''        \<newline>'' @
     ''        IMPORTANT REQUIREMENTS:\<newline>'' @
     ''        1. Start with a clear module docstring explaining the purpose\<newline>'' @
     ''        2. Implement functions/classes that fulfill the described purpose\<newline>'' @
     ''        3. Include detailed docstrings with parameters, returns, and exceptions\<newline>'' @
     ''        4. Use type hints when appropriate for clarity\<newline>'' @
     ''        5. Follow strict PEP 8 style guidelines\<newline>'' @
     ''        6. Analyze the caller context to structure the package in a way that matches expected usage\<newline>'' @
     ''        7. If analysis suggests this is purely for structural imports with no actual functionality needed,\<newline>'' @
     ''           provide minimal implementation with appropriate comments\<newline>'' @
     ''        \<newline>'' @
     ''        Do not generate any additional Python files. Provide only the Python code without explanations.\<newline>'' @
     ''        ''"

text \<open>The choice of the template, lines 171 to 249.\<close>

definition select_prompt ::
  "string \<Rightarrow> string option \<Rightarrow> string option \<Rightarrow> string \<Rightarrow> string \<Rightarrow> string \<Rightarrow> string \<Rightarrow> string \<Rightarrow> string"
where
  "select_prompt module_name function_name existing_code description current_description
     codebase_context caller_context empty_module_context =
     (if truthy_str function_name \<and> truthy_str existing_code then
        extend_prompt module_name (fmt function_name) description current_description
          (fmt existing_code) codebase_context caller_context empty_module_context
      else if truthy_str function_name then
        module_prompt module_name (fmt function_name) description codebase_context
          caller_context empty_module_context
      else
        package_prompt module_name description codebase_context caller_context
          empty_module_context)"

text \<open>\<^verbatim>\<open>cached_prompt or description\<close>.\<close>

definition or_else :: "string option \<Rightarrow> string \<Rightarrow> string" where
  "or_else v d = (if truthy_str v then fmt v else d)"

text \<open>
  \<^verbatim>\<open>generate_code\<close> up to the prompt, lines 82 to 249: \<^verbatim>\<open>None\<close> when the function
  has returned at line 84, the prompt otherwise.
\<close>

definition generate_prompt ::
  "module_store \<Rightarrow> string \<Rightarrow> string \<Rightarrow> string option \<Rightarrow> pydict option \<Rightarrow> string option"
where
  "generate_prompt store description fullname existing_code caller_info =
     (let parts = split CHR ''.'' fullname in
      if length parts < 2 then None
      else
        let module_name = parts ! 1;
            function_name = (if length parts > 2 then Some (parts ! 2) else None);
            is_empty_module = check_if_empty_module_needed fullname caller_info;
            module_to_check = join ''.'' (take 2 (split CHR ''.'' fullname));
            cached_prompt = get_cached_prompt store module_to_check;
            current_description = or_else cached_prompt description;
            codebase_context = get_codebase_context store;
            caller_context = caller_context_of fullname caller_info;
            empty_module_context =
              (if is_empty_module then empty_module_text fullname else '''')
        in
        Some (select_prompt module_name function_name existing_code description
                current_description codebase_context caller_context empty_module_context))"

section \<open>The generation client\<close>

text \<open>
  The response once it is back, lines 301 to 313: trimmed, freed of its code fence, and
  trimmed again.
\<close>

definition extract_code :: "string \<Rightarrow> string" where
  "extract_code content =
     (let code = strip content;
          code =
            (if startswith code ''```python'' then
               replace_first ''```'' '''' (replace_first ''```python'' '''' code)
             else if startswith code ''```'' then
               replace_first ''```'' '''' (replace_first ''```'' '''' code)
             else code)
      in strip code)"

text \<open>The handler of lines 321 to 323, after the calls \<open>reqs\<close> were made.\<close>

definition on_exception :: "exn \<Rightarrow> request list \<Rightarrow> outcome" where
  "on_exception e reqs =
     \<lparr>result = None, requests = reqs, printed = [''Error generating code: '' @ exn_str e]\<rparr>"

text \<open>
  \<^verbatim>\<open>generate_code(description, fullname, existing_code, caller_info)\<close>, lines 80 to 323.
  The calls to the logger are not modelled.
\<close>

definition generate_code ::
  "module_store \<Rightarrow> environ \<Rightarrow> service \<Rightarrow> parser \<Rightarrow>
   string \<Rightarrow> string \<Rightarrow> string option \<Rightarrow> pydict option \<Rightarrow> outcome"
where
  "generate_code store env service ast_parse description fullname existing_code caller_info =
     (case generate_prompt store description fullname existing_code caller_info of
        None \<Rightarrow> \<lparr>result = None, requests = [], printed = []\<rparr>
      | Some prompt \<Rightarrow>
          let api_key = env ''OPENAI_API_KEY'' in
          if \<not> truthy_str api_key then
            on_exception (ValueError ''Please set the OPENAI_API_KEY environment variable.'') []
          else
            let base_url = env ''OPENAI_API_BASE_URL'';
                model = get_default (env ''OPENAI_MODEL'') ''gpt-4.1'';
                req = \<lparr>req_api_key = fmt api_key, req_base_url = base_url,
                         req_model = model, req_prompt = prompt\<rparr>
            in
            (case service req of
               Inl e \<Rightarrow> on_exception e [req]
             | Inr content \<Rightarrow>
                 let code = extract_code content in
                 (case validate_code ast_parse code of
                    Inl e \<Rightarrow> on_exception e [req]
                  | Inr valid \<Rightarrow>
                      if valid then \<lparr>result = Some code, requests = [req], printed = []\<rparr>
                      else \<lparr>result = None, requests = [req],
                              printed = [''Generated code is not valid.'']\<rparr>)))"

section \<open>Facts about the string operations\<close>

text \<open>\<^const>\<open>str_in\<close> is the contiguous-sublist relation of the library.\<close>

lemma str_in_sublist: "str_in sub s = sublist sub s"
  by (induction s) (simp_all add: sublist_Cons_right)

lemma str_in_append_here: "str_in x (x @ t)"
  unfolding str_in_sublist by simp

lemma str_in_append_left: "str_in x t \<Longrightarrow> str_in x (a @ t)"
  unfolding str_in_sublist by (metis append.assoc sublist_def)

lemma str_in_trans: "str_in x y \<Longrightarrow> str_in y z \<Longrightarrow> str_in x z"
  unfolding str_in_sublist by (rule sublist_order.order_trans)

lemma split_nonempty: "split sep s \<noteq> []"
  by (induction s) (auto split: list.splits)

text \<open>
  Removing the first fence from a text that ends with the only fence it has gives the
  text before that fence, also when that text ends with one or two backticks.
\<close>

lemma replace_first_closing_fence:
  "\<not> str_in ''```'' inner \<Longrightarrow> replace_first ''```'' '''' (inner @ ''```'') = inner"
proof (induction inner)
  case Nil
  show ?case by simp
next
  case (Cons x xs)
  from Cons.prems have no_prefix: "\<not> prefix ''```'' (x # xs)" and rest: "\<not> str_in ''```'' xs"
    by simp_all
  show ?case
  proof (cases "prefix ''```'' (x # xs @ ''```'')")
    case False
    then have "replace_first ''```'' '''' (x # xs @ ''```'') =
        x # replace_first ''```'' '''' (xs @ ''```'')"
      by (simp only: replace_first.simps if_False)
    with Cons.IH [OF rest] show ?thesis by (simp only: append_Cons)
  next
    case True
    then have "replace_first ''```'' '''' (x # xs @ ''```'') =
        '''' @ drop (length ''```'') (x # xs @ ''```'')"
      by (simp only: replace_first.simps if_True)
    moreover from True no_prefix
    have "'''' @ drop (length ''```'') (x # xs @ ''```'') = x # xs"
      by (cases xs; cases "tl xs") auto
    ultimately show ?thesis by (simp only: append_Cons)
  qed
qed

section \<open>Facts about the heuristic\<close>

text \<open>
  The test of lines 63 to 67 never succeeds: every line the generator expression keeps
  passes the test made of it.
\<close>

lemma usage_guard_never_fires:
  "list_all (\<lambda>line. P line) (filter (\<lambda>line. P line \<and> Q line) ls)"
  by (simp add: list_all_iff)

text \<open>So the heuristic is decided by the import lines alone.\<close>

lemma check_if_empty_module_needed_unfolded:
  "check_if_empty_module_needed fullname caller_info =
     (truthy_dict caller_info \<and> truthy_str (caller_get caller_info ''code'') \<and>
      length (split CHR ''.'' fullname) > 2 \<and>
      filter
        (\<lambda>line. str_in (''from '' @ split CHR ''.'' fullname ! 0 @ ''.'' @
                          split CHR ''.'' fullname ! 1) line \<and>
                 str_in ''import'' line)
        (split CHR 0x0A (get_default (caller_get caller_info ''code'') '''')) \<noteq> [])"
  unfolding check_if_empty_module_needed_def Let_def
  by (simp add: usage_guard_never_fires del: str_in.simps)

text \<open>Without caller info, or for a name of at most two segments, the answer is no.\<close>

lemma check_if_empty_module_needed_conservative:
  "check_if_empty_module_needed fullname None = False"
  "length (split CHR ''.'' fullname) \<le> 2 \<Longrightarrow>
   check_if_empty_module_needed fullname caller_info = False"
  by (simp_all add: check_if_empty_module_needed_unfolded truthy_dict_def del: str_in.simps)

section \<open>Facts about the templates\<close>

text \<open>Every template holds each value it is filled with.\<close>

lemma extend_prompt_embeds:
  "str_in description (extend_prompt m f description cur ex cb cc em)"
  "str_in cur (extend_prompt m f description cur ex cb cc em)"
  "str_in ex (extend_prompt m f description cur ex cb cc em)"
  "str_in cb (extend_prompt m f description cur ex cb cc em)"
  "str_in cc (extend_prompt m f description cur ex cb cc em)"
  "str_in em (extend_prompt m f description cur ex cb cc em)"
  unfolding extend_prompt_def
  by ((rule str_in_append_here | rule str_in_append_left)+)+

lemma module_prompt_embeds:
  "str_in description (module_prompt m f description cb cc em)"
  "str_in cb (module_prompt m f description cb cc em)"
  "str_in cc (module_prompt m f description cb cc em)"
  "str_in em (module_prompt m f description cb cc em)"
  unfolding module_prompt_def
  by ((rule str_in_append_here | rule str_in_append_left)+)+

lemma package_prompt_embeds:
  "str_in description (package_prompt m description cb cc em)"
  "str_in cb (package_prompt m description cb cc em)"
  "str_in cc (package_prompt m description cb cc em)"
  "str_in em (package_prompt m description cb cc em)"
  unfolding package_prompt_def
  by ((rule str_in_append_here | rule str_in_append_left)+)+

lemma select_prompt_embeds:
  "str_in description (select_prompt m f ex description cur cb cc em)"
  "str_in cb (select_prompt m f ex description cur cb cc em)"
  "str_in cc (select_prompt m f ex description cur cb cc em)"
  "str_in em (select_prompt m f ex description cur cb cc em)"
  unfolding select_prompt_def
  by (simp_all only: extend_prompt_embeds module_prompt_embeds package_prompt_embeds
      if_split simp_thms)

lemma caller_context_snippets_code: "str_in code (caller_context_snippets filename rp code)"
  unfolding caller_context_snippets_def
  by ((rule str_in_append_here | rule str_in_append_left)+)

lemma caller_context_whole_code: "str_in code (caller_context_whole filename code)"
  unfolding caller_context_whole_def
  by ((rule str_in_append_here | rule str_in_append_left)+)

lemma caller_context_of_code:
  "caller_info = Some d \<Longrightarrow> map_of d ''code'' = Some code \<Longrightarrow> code \<noteq> [] \<Longrightarrow>
   str_in code (caller_context_of fullname caller_info)"
  unfolding caller_context_of_def Let_def
  by (auto simp add: truthy_dict_def truthy_str_def caller_get_def get_default_def
      caller_context_snippets_code caller_context_whole_code simp del: str_in.simps)

text \<open>Two texts in a row: the first at the head, the second somewhere after it.\<close>

lemma snippets_here:
  "str_in y t \<Longrightarrow> \<exists>before between after. x @ t = before @ x @ between @ y @ after"
proof -
  assume "str_in y t"
  then obtain ps ss where "t = ps @ y @ ss"
    unfolding str_in_sublist sublist_def by blast
  then have "x @ t = [] @ x @ ps @ y @ ss" by simp
  then show ?thesis by blast
qed

lemma snippets_skip:
  "\<exists>before between after. t = before @ x @ between @ y @ after \<Longrightarrow>
   \<exists>before between after. a @ t = before @ x @ between @ y @ after"
proof -
  assume "\<exists>before between after. t = before @ x @ between @ y @ after"
  then obtain p m s where "t = p @ x @ m @ y @ s" by blast
  then have "a @ t = (a @ p) @ x @ m @ y @ s" by simp
  then show ?thesis by blast
qed

text \<open>The codebase context starts with what it had and holds the block of every module.\<close>

lemma add_modules_extends: "\<exists>rest. add_modules ctx ms = ctx @ rest"
proof (induction ms arbitrary: ctx)
  case Nil
  show ?case by simp
next
  case (Cons m ms)
  obtain name data where m: "m = (name, data)" by (cases m)
  show ?case
  proof (cases "map_of data ''code''")
    case None
    with m Cons.IH [of ctx] show ?thesis by simp
  next
    case (Some code)
    from Cons.IH [of "ctx @ module_block name code"]
    obtain rest where
      "add_modules (ctx @ module_block name code) ms =
         (ctx @ module_block name code) @ rest" ..
    with m Some show ?thesis by simp
  qed
qed

lemma add_modules_block:
  "(module_name, data) \<in> set ms \<Longrightarrow> map_of data ''code'' = Some code \<Longrightarrow>
   str_in (module_block module_name code) (add_modules ctx ms)"
proof (induction ms arbitrary: ctx)
  case Nil
  then show ?case by simp
next
  case (Cons m ms)
  show ?case
  proof (cases "m = (module_name, data)")
    case True
    obtain rest where
      "add_modules (ctx @ module_block module_name code) ms =
         (ctx @ module_block module_name code) @ rest"
      using add_modules_extends by blast
    with True Cons.prems(2) show ?thesis
      by (simp add: str_in_append_left str_in_append_here del: str_in.simps)
  next
    case False
    with Cons.prems have later: "(module_name, data) \<in> set ms" by simp
    obtain n d where m: "m = (n, d)" by (cases m)
    show ?thesis
      using Cons.IH [OF later Cons.prems(2)] m by (simp split: option.splits)
  qed
qed

lemma module_block_embeds:
  "str_in module_name (module_block module_name code)"
  "str_in code (module_block module_name code)"
  unfolding module_block_def
  by ((rule str_in_append_here | rule str_in_append_left)+)+

section \<open>The claims\<close>

text \<open>
  C1. The heuristic is meant to answer no when a line of the caller uses the module
  directly (the comments of lines 62 and 68 say so). On the dotted name
  \<^verbatim>\<open>lib.crypto.hash.md5\<close> and a caller made of the lines
  \<^verbatim>\<open>from lib.crypto import hash\<close> and \<^verbatim>\<open>crypto.hash.md5(x)\<close>, the second line contains
  \<^verbatim>\<open>crypto.\<close> and no \<^verbatim>\<open>import\<close>, and the function answers yes all the same.
\<close>

theorem check_if_empty_module_needed_direct_usage:
  "filter (\<lambda>line. str_in ''crypto.'' line \<and> \<not> str_in ''import'' line)
     (split CHR 0x0A ''from lib.crypto import hash\<newline>crypto.hash.md5(x)'') =
     [''crypto.hash.md5(x)''] \<and>
   check_if_empty_module_needed ''lib.crypto.hash.md5''
     (Some [(''code'', ''from lib.crypto import hash\<newline>crypto.hash.md5(x)'')]) = True"
  by (simp add: check_if_empty_module_needed_def truthy_dict_def truthy_str_def
      caller_get_def get_default_def)

text \<open>
  C4. On the dotted name \<^verbatim>\<open>lib.crypto.hash.md5\<close> and a caller whose code is the one
  line \<^verbatim>\<open>from lib.crypto import hash\<close>, the heuristic answers yes.
\<close>

theorem check_if_empty_module_needed_import_only:
  "check_if_empty_module_needed ''lib.crypto.hash.md5''
     (Some [(''code'', ''from lib.crypto import hash'')]) = True"
  by (simp add: check_if_empty_module_needed_def truthy_dict_def truthy_str_def
      caller_get_def get_default_def)

text \<open>
  C8. A dotted name with fewer than two segments makes \<^verbatim>\<open>generate_code\<close> return
  \<^verbatim>\<open>None\<close> with no call to the generation service (and nothing printed).
\<close>

theorem generate_code_short_name:
  "length (split CHR ''.'' fullname) < 2 \<Longrightarrow>
   generate_code store env service ast_parse description fullname existing_code caller_info =
     \<lparr>result = None, requests = [], printed = []\<rparr>"
  by (simp add: generate_code_def generate_prompt_def)

theorem generate_code_short_name_witness:
  "length (split CHR ''.'' ''lib'') < 2 \<and>
   generate_code \<lparr>get_all_modules = [], get_cached_prompt = map_of []\<rparr>
     (map_of [(''OPENAI_API_KEY'', ''sk-test'')]) (\<lambda>req. Inr ''x = 1'') (\<lambda>code. Parsed)
     ''a library'' ''lib'' None None =
     \<lparr>result = None, requests = [], printed = []\<rparr>"
  using generate_code_short_name
    [of "''lib''" "\<lparr>get_all_modules = [], get_cached_prompt = map_of []\<rparr>"
      "map_of [(''OPENAI_API_KEY'', ''sk-test'')]" "\<lambda>req. Inr ''x = 1''" "\<lambda>code. Parsed"
      "''a library''" None None]
  by simp

text \<open>
  C7. When \<^verbatim>\<open>OPENAI_API_KEY\<close> is not in the environment, \<^verbatim>\<open>generate_code\<close> returns
  \<^verbatim>\<open>None\<close> and has made no call to the generation service: the credential is tested
  before the service is reached.
\<close>

theorem generate_code_no_credential:
  "env ''OPENAI_API_KEY'' = None \<Longrightarrow>
   result (generate_code store env service ast_parse description fullname existing_code
             caller_info) = None \<and>
   requests (generate_code store env service ast_parse description fullname existing_code
               caller_info) = []"
  by (simp add: generate_code_def on_exception_def truthy_str_def split: option.splits)

theorem generate_code_no_credential_witness:
  "map_of [(''OPENAI_MODEL'', ''gpt-4.1'')] ''OPENAI_API_KEY'' = None \<and>
   result (generate_code \<lparr>get_all_modules = [], get_cached_prompt = map_of []\<rparr>
             (map_of [(''OPENAI_MODEL'', ''gpt-4.1'')]) (\<lambda>req. Inr ''x = 1'') (\<lambda>code. Parsed)
             ''one-time passwords'' ''lib.totp'' None None) = None \<and>
   requests (generate_code \<lparr>get_all_modules = [], get_cached_prompt = map_of []\<rparr>
               (map_of [(''OPENAI_MODEL'', ''gpt-4.1'')]) (\<lambda>req. Inr ''x = 1'') (\<lambda>code. Parsed)
               ''one-time passwords'' ''lib.totp'' None None) = []"
  using generate_code_no_credential
    [of "map_of [(''OPENAI_MODEL'', ''gpt-4.1'')]"
      "\<lparr>get_all_modules = [], get_cached_prompt = map_of []\<rparr>"
      "\<lambda>req. Inr ''x = 1''" "\<lambda>code. Parsed" "''one-time passwords''" "''lib.totp''" None None]
  by simp

text \<open>
  C6. What \<^verbatim>\<open>generate_code\<close> returns is \<^verbatim>\<open>None\<close> or a text that the validator
  accepts, and that text is the code taken from the answer to the one request built from
  the prompt and the environment. When the answer to that request does not pass the
  validator, \<^verbatim>\<open>generate_code\<close> returns \<^verbatim>\<open>None\<close> and asks no second time. The module
  store is an argument that is only read: no text goes to it.
\<close>

theorem generate_code_validated:
  "(\<forall>code. result (generate_code store env service ast_parse description fullname
                     existing_code caller_info) = Some code \<longrightarrow>
      validate_code ast_parse code = Inr True \<and>
      (\<exists>prompt content.
         generate_prompt store description fullname existing_code caller_info = Some prompt \<and>
         service \<lparr>req_api_key = fmt (env ''OPENAI_API_KEY''),
                  req_base_url = env ''OPENAI_API_BASE_URL'',
                  req_model = get_default (env ''OPENAI_MODEL'') ''gpt-4.1'',
                  req_prompt = prompt\<rparr> = Inr content \<and>
         code = extract_code content)) \<and>
   (\<forall>prompt content.
      generate_prompt store description fullname existing_code caller_info = Some prompt \<and>
      service \<lparr>req_api_key = fmt (env ''OPENAI_API_KEY''),
               req_base_url = env ''OPENAI_API_BASE_URL'',
               req_model = get_default (env ''OPENAI_MODEL'') ''gpt-4.1'',
               req_prompt = prompt\<rparr> = Inr content \<and>
      validate_code ast_parse (extract_code content) \<noteq> Inr True \<longrightarrow>
      result (generate_code store env service ast_parse description fullname
                existing_code caller_info) = None \<and>
      length (requests (generate_code store env service ast_parse description fullname
                          existing_code caller_info)) \<le> 1)"
  by (auto simp add: generate_code_def on_exception_def Let_def
      split: option.splits sum.splits if_splits)

theorem generate_code_validated_witness:
  "validate_code (\<lambda>code. if code = ''def f(:'' then Raised (SyntaxError ''invalid syntax'') else Parsed)
     (extract_code ''```python\<newline>def f(:\<newline>```'') = Inr False \<and>
   result (generate_code \<lparr>get_all_modules = [], get_cached_prompt = map_of []\<rparr>
             (map_of [(''OPENAI_API_KEY'', ''sk-test'')])
             (\<lambda>req. if req_model req = ''gpt-4.1'' then Inr ''```python\<newline>def f(:\<newline>```''
                     else Inr ''x = 1'')
             (\<lambda>code. if code = ''def f(:'' then Raised (SyntaxError ''invalid syntax'') else Parsed)
             ''one-time passwords'' ''lib.totp'' None None) = None \<and>
   result (generate_code \<lparr>get_all_modules = [], get_cached_prompt = map_of []\<rparr>
             (map_of [(''OPENAI_API_KEY'', ''sk-test''), (''OPENAI_MODEL'', ''gpt-4o'')])
             (\<lambda>req. if req_model req = ''gpt-4.1'' then Inr ''```python\<newline>def f(:\<newline>```''
                     else Inr ''x = 1'')
             (\<lambda>code. if code = ''def f(:'' then Raised (SyntaxError ''invalid syntax'') else Parsed)
             ''one-time passwords'' ''lib.totp'' None None) = Some ''x = 1'' \<and>
   validate_code (\<lambda>code. if code = ''def f(:'' then Raised (SyntaxError ''invalid syntax'') else Parsed)
     ''x = 1'' = Inr True"
proof -
  let ?store = "\<lparr>get_all_modules = [], get_cached_prompt = map_of []\<rparr>"
  let ?service = "\<lambda>req. if req_model req = ''gpt-4.1''
      then Inr ''```python\<newline>def f(:\<newline>```'' else (Inr ''x = 1'' :: exn + string)"
  let ?parse = "\<lambda>code. if code = ''def f(:'' then Raised (SyntaxError ''invalid syntax'')
      else Parsed"
  let ?env = "map_of [(''OPENAI_API_KEY'', ''sk-test'')]"
  let ?env' = "map_of [(''OPENAI_API_KEY'', ''sk-test''), (''OPENAI_MODEL'', ''gpt-4o'')]"
  have ex: "extract_code ''```python\<newline>def f(:\<newline>```'' = ''def f(:''"
    by (simp add: extract_code_def strip_def isspace_def startswith_def)
  have ex': "extract_code ''x = 1'' = ''x = 1''"
    by (simp add: extract_code_def strip_def isspace_def startswith_def)
  obtain prompt where
    prompt: "generate_prompt ?store ''one-time passwords'' ''lib.totp'' None None = Some prompt"
    by (simp add: generate_prompt_def)
  have invalid: "validate_code ?parse (extract_code ''```python\<newline>def f(:\<newline>```'') = Inr False"
    by (simp add: ex validate_code_def)
  have answered:
    "generate_prompt ?store ''one-time passwords'' ''lib.totp'' None None = Some prompt \<and>
     ?service \<lparr>req_api_key = fmt (?env ''OPENAI_API_KEY''),
                req_base_url = ?env ''OPENAI_API_BASE_URL'',
                req_model = get_default (?env ''OPENAI_MODEL'') ''gpt-4.1'',
                req_prompt = prompt\<rparr> = Inr ''```python\<newline>def f(:\<newline>```'' \<and>
     validate_code ?parse (extract_code ''```python\<newline>def f(:\<newline>```'') \<noteq> Inr True"
    using prompt invalid by (simp add: get_default_def)
  from generate_code_validated
    [of ?store ?env ?service ?parse "''one-time passwords''" "''lib.totp''" None None] answered
  have none: "result (generate_code ?store ?env ?service ?parse ''one-time passwords''
      ''lib.totp'' None None) = None"
    by blast
  have some: "result (generate_code ?store ?env' ?service ?parse ''one-time passwords''
      ''lib.totp'' None None) = Some ''x = 1''"
    unfolding generate_code_def prompt
    by (simp add: Let_def truthy_str_def get_default_def fmt_def ex' validate_code_def)
  from generate_code_validated
    [of ?store ?env' ?service ?parse "''one-time passwords''" "''lib.totp''" None None] some
  have "validate_code ?parse ''x = 1'' = Inr True"
    by blast
  with invalid none some show ?thesis by blast
qed

text \<open>
  C9. The codebase context is the empty string when the store has no module; otherwise
  every module whose data carries the key \<^verbatim>\<open>code\<close> has its block in the context, and
  so its name and its code appear there as they are.
\<close>

theorem get_codebase_context_embeds:
  "(get_all_modules store = [] \<longrightarrow> get_codebase_context store = '''') \<and>
   (\<forall>name data code.
      (name, data) \<in> set (get_all_modules store) \<and> map_of data ''code'' = Some code \<longrightarrow>
        str_in (module_block name code) (get_codebase_context store) \<and>
        str_in name (get_codebase_context store) \<and>
        str_in code (get_codebase_context store))"
proof (intro conjI allI impI)
  assume "get_all_modules store = []"
  then show "get_codebase_context store = ''''"
    by (simp add: get_codebase_context_def)
next
  fix name data code
  assume entry: "(name, data) \<in> set (get_all_modules store) \<and> map_of data ''code'' = Some code"
  then have nonempty: "get_all_modules store \<noteq> []" by auto
  from entry have listed: "(name, data) \<in> set (get_all_modules store)"
    and coded: "map_of data ''code'' = Some code"
    by simp_all
  have "str_in (module_block name code)
      (add_modules ''Here is the existing codebase for reference:\<newline>\<newline>''
         (get_all_modules store))"
    using listed coded by (rule add_modules_block)
  with nonempty have block: "str_in (module_block name code) (get_codebase_context store)"
    by (simp add: get_codebase_context_def del: str_in.simps)
  then show "str_in (module_block name code) (get_codebase_context store)" .
  from block show "str_in name (get_codebase_context store)"
    by (rule str_in_trans [OF module_block_embeds(1)])
  from block show "str_in code (get_codebase_context store)"
    by (rule str_in_trans [OF module_block_embeds(2)])
qed

theorem get_codebase_context_embeds_witness:
  "get_codebase_context \<lparr>get_all_modules = [], get_cached_prompt = map_of []\<rparr> = '''' \<and>
   str_in ''lib.totp''
     (get_codebase_context
        \<lparr>get_all_modules =
           [(''lib.hash'', [(''code'', ''def md5(x): pass''), (''prompt'', ''hashes'')]),
            (''lib.totp'', [(''code'', ''def now(): return 0'')])],
         get_cached_prompt = map_of []\<rparr>) \<and>
   str_in ''def now(): return 0''
     (get_codebase_context
        \<lparr>get_all_modules =
           [(''lib.hash'', [(''code'', ''def md5(x): pass''), (''prompt'', ''hashes'')]),
            (''lib.totp'', [(''code'', ''def now(): return 0'')])],
         get_cached_prompt = map_of []\<rparr>)"
proof -
  let ?store = "\<lparr>get_all_modules =
           [(''lib.hash'', [(''code'', ''def md5(x): pass''), (''prompt'', ''hashes'')]),
            (''lib.totp'', [(''code'', ''def now(): return 0'')])],
         get_cached_prompt = map_of []\<rparr>"
  have entry: "(''lib.totp'', [(''code'', ''def now(): return 0'')]) \<in> set (get_all_modules ?store) \<and>
      map_of [(''code'', ''def now(): return 0'')] ''code'' = Some ''def now(): return 0''"
    by simp
  have "get_codebase_context \<lparr>get_all_modules = [], get_cached_prompt = map_of []\<rparr> = ''''"
    using get_codebase_context_embeds
      [of "\<lparr>get_all_modules = [], get_cached_prompt = map_of []\<rparr>"]
    by simp
  moreover have "str_in ''lib.totp'' (get_codebase_context ?store) \<and>
      str_in ''def now(): return 0'' (get_codebase_context ?store)"
    using get_codebase_context_embeds [of ?store] entry by blast
  ultimately show ?thesis by blast
qed

text \<open>
  C10. When the caller info carries a code that is not empty, the caller context holds
  that code as it is. When the relevance filter found lines, the context is the template
  of lines 129 to 144, where the found lines, joined, come first and the whole code
  after them; when it found none, the context is the template of lines 146 to 155. The
  prompt holds the caller context, and every call to the service carries that prompt.
\<close>

theorem caller_source_in_prompt:
  "length (split CHR ''.'' fullname) \<ge> 2 \<Longrightarrow>
   caller_info = Some d \<Longrightarrow> map_of d ''code'' = Some code \<Longrightarrow> code \<noteq> [] \<Longrightarrow>
   str_in code (caller_context_of fullname caller_info) \<and>
   (if relevant_parts_of fullname code \<noteq> [] then
      caller_context_of fullname caller_info =
        caller_context_snippets (get_default (map_of d ''filename'') ''unknown'')
          (relevant_parts_of fullname code) code \<and>
      (\<exists>before between after.
         caller_context_of fullname caller_info =
           before @ join ''\<newline>'' (relevant_parts_of fullname code) @ between @ code @ after)
    else
      caller_context_of fullname caller_info =
        caller_context_whole (get_default (map_of d ''filename'') ''unknown'') code) \<and>
   (\<exists>prompt. generate_prompt store description fullname existing_code caller_info = Some prompt \<and>
      str_in (caller_context_of fullname caller_info) prompt \<and>
      str_in code prompt \<and>
      list_all (\<lambda>req. req_prompt req = prompt)
        (requests (generate_code store env service ast_parse description fullname
                     existing_code caller_info)))"
proof -
  assume len: "length (split CHR ''.'' fullname) \<ge> 2"
    and caller: "caller_info = Some d" "map_of d ''code'' = Some code" "code \<noteq> []"
  have ctx: "str_in code (caller_context_of fullname caller_info)"
    using caller by (rule caller_context_of_code)
  have chosen: "caller_context_of fullname caller_info =
      (if relevant_parts_of fullname code \<noteq> [] then
         caller_context_snippets (get_default (map_of d ''filename'') ''unknown'')
           (relevant_parts_of fullname code) code
       else caller_context_whole (get_default (map_of d ''filename'') ''unknown'') code)"
  proof -
    from caller(2) have "d \<noteq> []" by auto
    with caller show ?thesis
      by (simp add: caller_context_of_def Let_def truthy_dict_def truthy_str_def
          caller_get_def get_default_def)
  qed
  have ordered: "\<exists>before between after.
      caller_context_snippets filename rp code = before @ join ''\<newline>'' rp @ between @ code @ after"
    for filename rp
    unfolding caller_context_snippets_def
    by ((rule snippets_here | rule snippets_skip)+,
        (rule str_in_append_here | rule str_in_append_left)+)
  from len obtain prompt where
    prompt: "generate_prompt store description fullname existing_code caller_info = Some prompt"
    and shape: "\<exists>m f cur em. prompt =
      select_prompt m f existing_code description cur (get_codebase_context store)
        (caller_context_of fullname caller_info) em"
    by (auto simp add: generate_prompt_def Let_def)
  from shape have held: "str_in (caller_context_of fullname caller_info) prompt"
    using select_prompt_embeds(3) by blast
  with ctx have "str_in code prompt" by (rule str_in_trans)
  moreover have "list_all (\<lambda>req. req_prompt req = prompt)
        (requests (generate_code store env service ast_parse description fullname
                     existing_code caller_info))"
    by (simp add: generate_code_def prompt on_exception_def Let_def split: sum.splits)
  ultimately have sent: "\<exists>prompt.
      generate_prompt store description fullname existing_code caller_info = Some prompt \<and>
      str_in (caller_context_of fullname caller_info) prompt \<and>
      str_in code prompt \<and>
      list_all (\<lambda>req. req_prompt req = prompt)
        (requests (generate_code store env service ast_parse description fullname
                     existing_code caller_info))"
    using prompt held by blast
  show ?thesis
  proof (cases "relevant_parts_of fullname code \<noteq> []")
    case True
    with chosen have "caller_context_of fullname caller_info =
        caller_context_snippets (get_default (map_of d ''filename'') ''unknown'')
          (relevant_parts_of fullname code) code"
      by simp
    with True ctx sent ordered [of "get_default (map_of d ''filename'') ''unknown''"
        "relevant_parts_of fullname code"]
    show ?thesis by (simp del: str_in.simps)
  next
    case False
    with chosen ctx sent show ?thesis by (simp del: str_in.simps)
  qed
qed

theorem caller_source_in_prompt_witness:
  "length (split CHR ''.'' ''lib.totp.now'') \<ge> 2 \<and>
   relevant_parts_of ''lib.totp.now'' ''from lib.totp import now\<newline>print(now())'' =
     [''from lib.totp import now'', ''print(now())''] \<and>
   (\<exists>before between after.
      caller_context_of ''lib.totp.now''
        (Some [(''filename'', ''main.py''),
               (''code'', ''from lib.totp import now\<newline>print(now())'')]) =
        before @ ''from lib.totp import now\<newline>print(now())'' @ between @
        ''from lib.totp import now\<newline>print(now())'' @ after) \<and>
   (\<exists>prompt.
      generate_prompt \<lparr>get_all_modules = [], get_cached_prompt = map_of []\<rparr>
        ''one-time passwords'' ''lib.totp.now'' None
        (Some [(''filename'', ''main.py''),
               (''code'', ''from lib.totp import now\<newline>print(now())'')]) = Some prompt \<and>
      str_in ''from lib.totp import now\<newline>print(now())'' prompt)"
proof -
  let ?code = "''from lib.totp import now\<newline>print(now())''"
  let ?d = "[(''filename'', ''main.py''), (''code'', ?code)]"
  have len: "length (split CHR ''.'' ''lib.totp.now'') \<ge> 2"
    by simp
  have rp: "relevant_parts_of ''lib.totp.now'' ?code =
      [''from lib.totp import now'', ''print(now())'']"
    by (simp add: relevant_parts_of_def startswith_def)
  have joined: "join ''\<newline>'' [''from lib.totp import now'', ''print(now())''] = ?code"
    by simp
  have coded: "map_of ?d ''code'' = Some ?code"
    by simp
  have nonempty: "?code \<noteq> []"
    by simp
  note fact = caller_source_in_prompt
    [OF len refl coded nonempty,
      of "\<lparr>get_all_modules = [], get_cached_prompt = map_of []\<rparr>"
        "''one-time passwords''" None "\<lambda>k. None" "\<lambda>req. Inr ''x = 1''" "\<lambda>code. Parsed"]
  from fact have choice:
    "if relevant_parts_of ''lib.totp.now'' ?code \<noteq> [] then
       caller_context_of ''lib.totp.now'' (Some ?d) =
         caller_context_snippets (get_default (map_of ?d ''filename'') ''unknown'')
           (relevant_parts_of ''lib.totp.now'' ?code) ?code \<and>
       (\<exists>before between after.
          caller_context_of ''lib.totp.now'' (Some ?d) =
            before @ join ''\<newline>'' (relevant_parts_of ''lib.totp.now'' ?code) @ between @
            ?code @ after)
     else
       caller_context_of ''lib.totp.now'' (Some ?d) =
         caller_context_whole (get_default (map_of ?d ''filename'') ''unknown'') ?code"
    by (rule conjunct1 [OF conjunct2])
  have found: "relevant_parts_of ''lib.totp.now'' ?code \<noteq> []"
    by (simp only: rp list.distinct not_False_eq_True)
  from choice have
    "caller_context_of ''lib.totp.now'' (Some ?d) =
       caller_context_snippets (get_default (map_of ?d ''filename'') ''unknown'')
         (relevant_parts_of ''lib.totp.now'' ?code) ?code \<and>
     (\<exists>before between after.
        caller_context_of ''lib.totp.now'' (Some ?d) =
          before @ join ''\<newline>'' (relevant_parts_of ''lib.totp.now'' ?code) @ between @
          ?code @ after)"
    unfolding if_P [OF found] .
  then have "\<exists>before between after.
      caller_context_of ''lib.totp.now'' (Some ?d) =
        before @ join ''\<newline>'' (relevant_parts_of ''lib.totp.now'' ?code) @ between @
        ?code @ after"
    by (rule conjunct2)
  then have "\<exists>before between after.
      caller_context_of ''lib.totp.now'' (Some ?d) =
        before @ ?code @ between @ ?code @ after"
    by (simp only: rp joined)
  moreover from fact have "\<exists>prompt.
      generate_prompt \<lparr>get_all_modules = [], get_cached_prompt = map_of []\<rparr>
        ''one-time passwords'' ''lib.totp.now'' None (Some ?d) = Some prompt \<and>
      str_in ?code prompt"
    by blast
  ultimately show ?thesis using len rp by blast
qed

text \<open>
  C3, as the code has it. When the trimmed response is the fence \<^verbatim>\<open>```python\<close>, an
  inner text without a triple backtick, and a closing fence, the client returns the
  inner text, trimmed.
\<close>

theorem extract_code_python_fence:
  "strip content = ''```python'' @ inner @ ''```'' \<Longrightarrow> \<not> str_in ''```'' inner \<Longrightarrow>
   extract_code content = strip inner"
proof -
  assume wrapped: "strip content = ''```python'' @ inner @ ''```''"
    and no_fence: "\<not> str_in ''```'' inner"
  have opened: "replace_first ''```python'' '''' (''```python'' @ inner @ ''```'') = inner @ ''```''"
    by simp
  have "startswith (''```python'' @ inner @ ''```'') ''```python''"
    by (simp add: startswith_def)
  then have "extract_code content =
      strip (replace_first ''```'' '''' (replace_first ''```python'' '''' (''```python'' @ inner @ ''```'')))"
    unfolding extract_code_def Let_def wrapped by (simp only: if_True)
  also have "\<dots> = strip (replace_first ''```'' '''' (inner @ ''```''))"
    by (simp only: opened)
  also have "\<dots> = strip inner"
    by (simp only: replace_first_closing_fence [OF no_fence])
  finally show ?thesis .
qed

theorem extract_code_python_fence_witness:
  "strip ''  ```python\<newline>print(1)\<newline>```\<newline>'' = ''```python'' @ ''\<newline>print(1)\<newline>'' @ ''```'' \<and>
   \<not> str_in ''```'' ''\<newline>print(1)\<newline>'' \<and>
   extract_code ''  ```python\<newline>print(1)\<newline>```\<newline>'' = ''print(1)''"
proof -
  have wrapped: "strip ''  ```python\<newline>print(1)\<newline>```\<newline>'' =
      ''```python'' @ ''\<newline>print(1)\<newline>'' @ ''```''"
    by (simp add: strip_def isspace_def)
  have no_fence: "\<not> str_in ''```'' ''\<newline>print(1)\<newline>''"
    by simp
  have "strip ''\<newline>print(1)\<newline>'' = ''print(1)''"
    by (simp add: strip_def isspace_def)
  with extract_code_python_fence [OF wrapped no_fence] wrapped no_fence show ?thesis
    by (simp only: simp_thms)
qed

text \<open>
  C3, as stated, fails. An inner text with a fence marker loses that marker and keeps the
  closing fence, and a language tag other than \<^verbatim>\<open>python\<close> stays in the result.
\<close>

theorem extract_code_inner_fence_counterexample:
  "extract_code (''```python'' @ ''\<newline>x = 1  # ```\<newline>'' @ ''```'') = ''x = 1  # \<newline>```'' \<and>
   strip ''\<newline>x = 1  # ```\<newline>'' = ''x = 1  # ```'' \<and>
   extract_code (''```py'' @ ''\<newline>x = 1\<newline>'' @ ''```'') = ''py\<newline>x = 1'' \<and>
   strip ''\<newline>x = 1\<newline>'' = ''x = 1''"
  by (simp add: extract_code_def strip_def isspace_def startswith_def)

text \<open>
  C5, as the code has it. The validator answers yes when the parser accepts the text and
  no when the parser raises \<^verbatim>\<open>SyntaxError\<close>, and raises nothing then. An exception of
  the parser that is not a \<^verbatim>\<open>SyntaxError\<close> is not caught: it leaves the validator,
  and the validator raises nothing else.
\<close>

theorem validate_code_by_parser:
  "(ast_parse code = Parsed \<longrightarrow> validate_code ast_parse code = Inr True) \<and>
   (\<forall>m. ast_parse code = Raised (SyntaxError m) \<longrightarrow> validate_code ast_parse code = Inr False) \<and>
   (\<forall>e. ast_parse code = Raised e \<and> (\<forall>m. e \<noteq> SyntaxError m) \<longrightarrow>
      validate_code ast_parse code = Inl e) \<and>
   (\<forall>e. validate_code ast_parse code = Inl e \<longrightarrow>
      ast_parse code = Raised e \<and> (\<forall>m. e \<noteq> SyntaxError m))"
proof (intro conjI allI impI)
  assume "ast_parse code = Parsed"
  then show "validate_code ast_parse code = Inr True"
    by (simp add: validate_code_def)
next
  fix m
  assume "ast_parse code = Raised (SyntaxError m)"
  then show "validate_code ast_parse code = Inr False"
    by (simp add: validate_code_def)
next
  fix e
  assume "ast_parse code = Raised e \<and> (\<forall>m. e \<noteq> SyntaxError m)"
  then show "validate_code ast_parse code = Inl e"
    by (cases e) (simp_all add: validate_code_def)
next
  fix e
  assume "validate_code ast_parse code = Inl e"
  then show "ast_parse code = Raised e"
    by (simp add: validate_code_def split: parse_result.splits exn.splits)
next
  fix e m
  assume "validate_code ast_parse code = Inl e"
  then show "e \<noteq> SyntaxError m"
    by (auto simp add: validate_code_def split: parse_result.splits exn.splits)
qed

theorem validate_code_by_parser_witness:
  "validate_code
     (\<lambda>code. if code = ''def f(:'' then Raised (SyntaxError ''invalid syntax'')
        else if code = ''x = [[[[1]]]]'' then Raised (OtherError ''MemoryError'')
        else Parsed)
     ''x = 1'' = Inr True \<and>
   validate_code
     (\<lambda>code. if code = ''def f(:'' then Raised (SyntaxError ''invalid syntax'')
        else if code = ''x = [[[[1]]]]'' then Raised (OtherError ''MemoryError'')
        else Parsed)
     ''def f(:'' = Inr False \<and>
   validate_code
     (\<lambda>code. if code = ''def f(:'' then Raised (SyntaxError ''invalid syntax'')
        else if code = ''x = [[[[1]]]]'' then Raised (OtherError ''MemoryError'')
        else Parsed)
     ''x = [[[[1]]]]'' = Inl (OtherError ''MemoryError'')"
proof -
  let ?parse = "\<lambda>code. if code = ''def f(:'' then Raised (SyntaxError ''invalid syntax'')
        else if code = ''x = [[[[1]]]]'' then Raised (OtherError ''MemoryError'')
        else Parsed"
  have accepted: "?parse ''x = 1'' = Parsed"
    and malformed: "?parse ''def f(:'' = Raised (SyntaxError ''invalid syntax'')"
    and other: "?parse ''x = [[[[1]]]]'' = Raised (OtherError ''MemoryError'') \<and>
      (\<forall>m. OtherError ''MemoryError'' \<noteq> SyntaxError m)"
    by simp_all
  from validate_code_by_parser [of ?parse "''x = 1''"] accepted
  have "validate_code ?parse ''x = 1'' = Inr True" by blast
  moreover from validate_code_by_parser [of ?parse "''def f(:''"] malformed
  have "validate_code ?parse ''def f(:'' = Inr False" by blast
  moreover from validate_code_by_parser [of ?parse "''x = [[[[1]]]]''"] other
  have "validate_code ?parse ''x = [[[[1]]]]'' = Inl (OtherError ''MemoryError'')" by blast
  ultimately show ?thesis by blast
qed

text \<open>
  C5, as stated, fails for a parser that raises something else than \<^verbatim>\<open>SyntaxError\<close>.
  The interpreter's parser bounds the depth of nesting and raises \<^verbatim>\<open>RecursionError\<close>
  beyond the bound; with such a parser the exception leaves the validator on a long
  chain of attribute accesses.
\<close>

theorem validate_code_raises_counterexample:
  "validate_code
     (\<lambda>code. if length code > 100000
        then Raised (RecursionError ''maximum recursion depth exceeded during ast construction'')
        else Parsed)
     (''a'' @ concat (replicate 100000 ''.b'')) =
     Inl (RecursionError ''maximum recursion depth exceeded during ast construction'')"
  by (simp add: validate_code_def length_concat sum_list_replicate)

text \<open>
  C2, as the code has it. A dotted name with two segments or more gives a prompt, and the
  prompt holds: the description of the caller; in the template that extends an existing
  module (a symbol name and an existing code, both non-empty), the purpose of the
  library, which is the cached description of the two-segment module when there is a
  non-empty one and the description of the caller otherwise; the codebase context; the
  caller context; and the instruction for a minimal module when the heuristic fired,
  the place of the instruction being empty when it did not. In the two other templates
  the cached description plays no part.
\<close>

theorem prompt_embeds_its_parts:
  "length (split CHR ''.'' fullname) \<ge> 2 \<Longrightarrow>
   (let parts = split CHR ''.'' fullname;
        function_name = (if length parts > 2 then Some (parts ! 2) else None);
        extending = (truthy_str function_name \<and> truthy_str existing_code);
        purpose = or_else (get_cached_prompt store (join ''.'' (take 2 parts))) description;
        fired = check_if_empty_module_needed fullname caller_info
    in \<exists>prompt.
         generate_prompt store description fullname existing_code caller_info = Some prompt \<and>
         str_in description prompt \<and>
         (if extending then str_in purpose prompt
          else \<forall>cached. generate_prompt (store\<lparr>get_cached_prompt := cached\<rparr>) description
                          fullname existing_code caller_info = Some prompt) \<and>
         str_in (get_codebase_context store) prompt \<and>
         str_in (caller_context_of fullname caller_info) prompt \<and>
         (if fired then str_in (empty_module_text fullname) prompt
          else prompt =
                 select_prompt (parts ! 1) function_name existing_code description purpose
                   (get_codebase_context store) (caller_context_of fullname caller_info) ''''))"
proof -
  assume len: "length (split CHR ''.'' fullname) \<ge> 2"
  define parts where "parts = split CHR ''.'' fullname"
  define function_name where
    "function_name = (if length parts > 2 then Some (parts ! 2) else None)"
  define purpose where
    "purpose = or_else (get_cached_prompt store (join ''.'' (take 2 parts))) description"
  define em where
    "em = (if check_if_empty_module_needed fullname caller_info
           then empty_module_text fullname else '''')"
  define prompt where
    "prompt = select_prompt (parts ! 1) function_name existing_code description purpose
       (get_codebase_context store) (caller_context_of fullname caller_info) em"
  have gen: "generate_prompt store description fullname existing_code caller_info = Some prompt"
    using len
    by (simp add: generate_prompt_def Let_def prompt_def em_def purpose_def
        function_name_def parts_def)
  have description: "str_in description prompt"
    and codebase: "str_in (get_codebase_context store) prompt"
    and caller: "str_in (caller_context_of fullname caller_info) prompt"
    and slot: "str_in em prompt"
    unfolding prompt_def by (rule select_prompt_embeds)+
  have purpose: "str_in purpose prompt"
    if "truthy_str function_name \<and> truthy_str existing_code"
    unfolding prompt_def select_prompt_def
    by (simp add: that extend_prompt_embeds del: str_in.simps)
  have independent:
    "generate_prompt (store\<lparr>get_cached_prompt := cached\<rparr>) description fullname
       existing_code caller_info = Some prompt"
    if "\<not> (truthy_str function_name \<and> truthy_str existing_code)" for cached
    using len that
    by (simp add: generate_prompt_def Let_def prompt_def em_def function_name_def parts_def
        select_prompt_def get_codebase_context_def)
  have fired: "str_in (empty_module_text fullname) prompt"
    if "check_if_empty_module_needed fullname caller_info"
    using slot that by (simp add: em_def del: str_in.simps)
  have not_fired: "prompt =
      select_prompt (parts ! 1) function_name existing_code description purpose
        (get_codebase_context store) (caller_context_of fullname caller_info) ''''"
    if "\<not> check_if_empty_module_needed fullname caller_info"
    using that by (simp add: prompt_def em_def)
  show ?thesis
    unfolding Let_def parts_def [symmetric] function_name_def [symmetric]
      purpose_def [symmetric]
    using gen description codebase caller purpose independent fired not_fired
    by (auto simp del: str_in.simps)
qed

theorem prompt_embeds_its_parts_witness:
  "length (split CHR ''.'' ''lib.totp.now'') \<ge> 2 \<and>
   check_if_empty_module_needed ''lib.totp.now'' (Some [(''code'', ''from lib.totp import now'')]) \<and>
   (\<exists>prompt.
      generate_prompt
        \<lparr>get_all_modules = [(''lib.hash'', [(''code'', ''def md5(x): pass'')])],
         get_cached_prompt = map_of [(''lib.totp'', ''Time-based one-time passwords'')]\<rparr>
        ''Return the current code'' ''lib.totp.now'' (Some ''def old(): pass'')
        (Some [(''code'', ''from lib.totp import now'')]) = Some prompt \<and>
      str_in ''Return the current code'' prompt \<and>
      str_in ''Time-based one-time passwords'' prompt \<and>
      str_in (empty_module_text ''lib.totp.now'') prompt) \<and>
   \<not> check_if_empty_module_needed ''lib.totp'' None \<and>
   (\<exists>prompt.
      generate_prompt
        \<lparr>get_all_modules = [(''lib.hash'', [(''code'', ''def md5(x): pass'')])],
         get_cached_prompt = map_of [(''lib.totp'', ''Time-based one-time passwords'')]\<rparr>
        ''Return the current code'' ''lib.totp'' None None = Some prompt \<and>
      generate_prompt
        \<lparr>get_all_modules = [(''lib.hash'', [(''code'', ''def md5(x): pass'')])],
         get_cached_prompt = map_of []\<rparr>
        ''Return the current code'' ''lib.totp'' None None = Some prompt \<and>
      str_in ''Return the current code'' prompt)"
proof -
  let ?store = "\<lparr>get_all_modules = [(''lib.hash'', [(''code'', ''def md5(x): pass'')])],
         get_cached_prompt = map_of [(''lib.totp'', ''Time-based one-time passwords'')]\<rparr>"
  have fired: "check_if_empty_module_needed ''lib.totp.now''
      (Some [(''code'', ''from lib.totp import now'')])"
    by (simp add: check_if_empty_module_needed_def truthy_dict_def truthy_str_def
        caller_get_def get_default_def)
  have quiet: "\<not> check_if_empty_module_needed ''lib.totp'' None"
    by (simp add: check_if_empty_module_needed_def truthy_dict_def)
  have extending:
    "\<exists>prompt.
      generate_prompt ?store ''Return the current code'' ''lib.totp.now''
        (Some ''def old(): pass'') (Some [(''code'', ''from lib.totp import now'')]) = Some prompt \<and>
      str_in ''Return the current code'' prompt \<and>
      str_in ''Time-based one-time passwords'' prompt \<and>
      str_in (empty_module_text ''lib.totp.now'') prompt"
    using prompt_embeds_its_parts
      [of "''lib.totp.now''" "Some ''def old(): pass''" ?store "''Return the current code''"
        "Some [(''code'', ''from lib.totp import now'')]"]
      fired
    by (simp add: Let_def truthy_str_def or_else_def fmt_def del: str_in.simps) blast
  have package:
    "\<exists>prompt.
      generate_prompt ?store ''Return the current code'' ''lib.totp'' None None = Some prompt \<and>
      generate_prompt (?store\<lparr>get_cached_prompt := map_of []\<rparr>)
        ''Return the current code'' ''lib.totp'' None None = Some prompt \<and>
      str_in ''Return the current code'' prompt"
    using prompt_embeds_its_parts
      [of "''lib.totp''" None ?store "''Return the current code''" None]
    by (simp add: Let_def truthy_str_def del: str_in.simps) blast
  from fired quiet extending package show ?thesis
    by (simp del: str_in.simps)
qed

text \<open>
  C2, as stated, fails. The store holds a description for \<^verbatim>\<open>lib.totp\<close>, and neither the
  prompt for a new module with the symbol \<^verbatim>\<open>now\<close> nor the prompt for the package holds
  it.
\<close>

theorem prompt_without_cached_description_counterexample:
  "get_cached_prompt
     \<lparr>get_all_modules = [],
      get_cached_prompt = map_of [(''lib.totp'', ''Time-based one-time passwords'')]\<rparr>
     ''lib.totp'' = Some ''Time-based one-time passwords'' \<and>
   (case generate_prompt
           \<lparr>get_all_modules = [],
            get_cached_prompt = map_of [(''lib.totp'', ''Time-based one-time passwords'')]\<rparr>
           ''Return the current code'' ''lib.totp.now'' None None of
      None \<Rightarrow> False
    | Some prompt \<Rightarrow> \<not> str_in ''Time-based one-time passwords'' prompt) \<and>
   (case generate_prompt
           \<lparr>get_all_modules = [],
            get_cached_prompt = map_of [(''lib.totp'', ''Time-based one-time passwords'')]\<rparr>
           ''Return the current code'' ''lib.totp'' None None of
      None \<Rightarrow> False
    | Some prompt \<Rightarrow> \<not> str_in ''Time-based one-time passwords'' prompt)"
  by (simp add: generate_prompt_def select_prompt_def module_prompt_def package_prompt_def
      check_if_empty_module_needed_def caller_context_of_def get_codebase_context_def
      truthy_dict_def truthy_str_def or_else_def fmt_def quoted_def symbol_kind_def
      isupper_def)

end
